theory Spec2Isabelle
  imports Complex_Main "HOL-Library.AList"
begin

section \<open>Values thrown and values returned\<close>

text \<open>
  A JavaScript \<^verbatim>\<open>throw\<close> is a value of the sum type \<open>thrown + 'a\<close>. The classes the
  sources construct or test with \<^verbatim>\<open>instanceof\<close> are kept apart:
  \<^item> \<open>Error m\<close> is \<^verbatim>\<open>new Error(m)\<close>, and also the built-in subclasses the runtime
    raises (the \<^verbatim>\<open>TypeError\<close> of a failed \<^verbatim>\<open>fetch\<close>, the \<^verbatim>\<open>SyntaxError\<close> of
    \<^verbatim>\<open>response.json()\<close>): no source tests for them by class;
  \<^item> \<open>ApiError m status code\<close> is the class of \<^verbatim>\<open>src/lib/api-client.ts\<close>;
  \<^item> \<open>ZodError m\<close> is what \<^verbatim>\<open>parse\<close> of the schema library raises;
  \<^item> \<open>NonError\<close> is any thrown value that is not an \<^verbatim>\<open>Error\<close> instance.
\<close>

datatype thrown =
    Error string
  | ApiError string nat "string option"
  | ZodError string
  | NonError

fun instanceof_Error :: "thrown \<Rightarrow> bool" where
  "instanceof_Error NonError = False"
| "instanceof_Error _ = True"

fun instanceof_ApiError :: "thrown \<Rightarrow> bool" where
  "instanceof_ApiError (ApiError _ _ _) = True"
| "instanceof_ApiError _ = False"

fun instanceof_ZodError :: "thrown \<Rightarrow> bool" where
  "instanceof_ZodError (ZodError _) = True"
| "instanceof_ZodError _ = False"

fun message :: "thrown \<Rightarrow> string" where
  "message (Error m) = m"
| "message (ApiError m _ _) = m"
| "message (ZodError m) = m"
| "message NonError = []"

text \<open>\<^verbatim>\<open>ActionResult<T>\<close>: the optional members are \<open>None\<close> when absent or undefined.\<close>

datatype 'a ActionResult =
    Success 'a
  | Failure string "string option" "nat option"

section \<open>Strings\<close>

text \<open>Decimal rendering of a non-negative integer, as a template literal prints it.\<close>

definition digit :: "nat \<Rightarrow> char" where
  "digit d = char_of (48 + d)"

fun decimal :: "nat \<Rightarrow> string" where
  "decimal n = (if n < 10 then [digit n] else decimal (n div 10) @ [digit (n mod 10)])"

declare decimal.simps [simp del]

text \<open>\<^verbatim>\<open>s.includes(pat)\<close>: \<open>pat\<close> occurs in \<open>s\<close> as a contiguous run.\<close>

fun starts_with :: "string \<Rightarrow> string \<Rightarrow> bool" where
  "starts_with s [] = True"
| "starts_with [] (p # ps) = False"
| "starts_with (c # cs) (p # ps) = (c = p \<and> starts_with cs ps)"

fun str_includes :: "string \<Rightarrow> string \<Rightarrow> bool" where
  "str_includes [] pat = starts_with [] pat"
| "str_includes (c # cs) pat = (starts_with (c # cs) pat \<or> str_includes cs pat)"

text \<open>\<^verbatim>\<open>a || b\<close> on an environment variable: the default replaces undefined and the empty string.\<close>

fun or_default :: "string option \<Rightarrow> string \<Rightarrow> string" where
  "or_default None d = d"
| "or_default (Some s) d = (if s = [] then d else s)"

text \<open>\<^verbatim>\<open>Buffer.from(s).toString("base64")\<close> on the bytes of \<open>s\<close>.\<close>

definition b64char :: "nat \<Rightarrow> char" where
  "b64char n = ''ABCDEFGHIJKLMNOPQRSTUVWXYZabcdefghijklmnopqrstuvwxyz0123456789+/'' ! n"

fun b64 :: "nat list \<Rightarrow> string" where
  "b64 [] = []"
| "b64 [a] = [b64char (a div 4), b64char ((a mod 4) * 16), CHR ''='', CHR ''='']"
| "b64 [a, b] =
     [b64char (a div 4), b64char ((a mod 4) * 16 + b div 16), b64char ((b mod 16) * 4), CHR ''='']"
| "b64 (a # b # c # rest) =
     [b64char (a div 4), b64char ((a mod 4) * 16 + b div 16),
      b64char ((b mod 16) * 4 + c div 64), b64char (c mod 64)] @ b64 rest"

definition base64 :: "string \<Rightarrow> string" where
  "base64 s = b64 (map of_char s)"

section \<open>The star rating of a testimonial\<close>

text \<open>
  A JavaScript \<^verbatim>\<open>number\<close>: the finite doubles are rationals, and the three operations
  \<^verbatim>\<open>StarRating\<close> applies (\<^verbatim>\<open>Math.floor\<close>, the subtraction \<^verbatim>\<open>star - 0.5\<close> for
  \<^verbatim>\<open>star\<close> from 1 to 5, and the comparisons) are exact on doubles, so they are the
  rational operations; \<^verbatim>\<open>NaN\<close> and the two infinities are values of their own.
\<close>

datatype number = Finite rat | NaN | PosInfinity | NegInfinity

fun Math_floor :: "number \<Rightarrow> number" where
  "Math_floor (Finite q) = Finite (of_int \<lfloor>q\<rfloor>)"
| "Math_floor NaN = NaN"
| "Math_floor PosInfinity = PosInfinity"
| "Math_floor NegInfinity = NegInfinity"

fun num_le :: "number \<Rightarrow> number \<Rightarrow> bool" where
  "num_le NaN _ = False"
| "num_le _ NaN = False"
| "num_le (Finite a) (Finite b) = (a \<le> b)"
| "num_le NegInfinity _ = True"
| "num_le _ PosInfinity = True"
| "num_le _ _ = False"

fun num_sub :: "number \<Rightarrow> number \<Rightarrow> number" where
  "num_sub (Finite a) (Finite b) = Finite (a - b)"
| "num_sub NaN _ = NaN"
| "num_sub _ NaN = NaN"
| "num_sub PosInfinity PosInfinity = NaN"
| "num_sub NegInfinity NegInfinity = NaN"
| "num_sub PosInfinity _ = PosInfinity"
| "num_sub NegInfinity _ = NegInfinity"
| "num_sub _ PosInfinity = NegInfinity"
| "num_sub _ NegInfinity = PosInfinity"

fun strict_eq :: "number \<Rightarrow> number \<Rightarrow> bool" where
  "strict_eq NaN _ = False"
| "strict_eq _ NaN = False"
| "strict_eq a b = (a = b)"

datatype icon = Star | StarHalf

record element =
  icon :: icon
  key :: nat
  size_px :: nat
  fill :: "string option"

definition full_star :: "nat \<Rightarrow> element" where
  "full_star star = \<lparr>icon = Star, key = star, size_px = 16, fill = Some ''currentColor''\<rparr>"

definition half_star :: "nat \<Rightarrow> element" where
  "half_star star = \<lparr>icon = StarHalf, key = star, size_px = 16, fill = Some ''currentColor''\<rparr>"

definition empty_star :: "nat \<Rightarrow> element" where
  "empty_star star = \<lparr>icon = Star, key = star, size_px = 16, fill = None\<rparr>"

text \<open>The children of the \<^verbatim>\<open>div\<close> that \<^verbatim>\<open>StarRating\<close> returns.\<close>

definition StarRating :: "number \<Rightarrow> element list" where
  "StarRating rating =
     map (\<lambda>star.
            if num_le (Finite (of_nat star)) (Math_floor rating) then full_star star
            else if strict_eq (num_sub (Finite (of_nat star)) (Finite (1 / 2))) rating
            then half_star star
            else empty_star star)
         [1, 2, 3, 4, 5]"

section \<open>Requests, responses and the network\<close>

datatype json =
    JNull
  | JBool bool
  | JNumber rat
  | JString string
  | JArray "json list"
  | JObject "(string \<times> json) list"

text \<open>
  The body of a response: text that \<^verbatim>\<open>response.json()\<close> parses to a value, or text it
  rejects (with the message of the runtime's \<^verbatim>\<open>SyntaxError\<close>).
\<close>

datatype payload = Json json | Malformed string

record response =
  status :: nat
  payload :: payload

text \<open>\<^verbatim>\<open>response.ok\<close>: the status is in the range 200 to 299.\<close>

definition ok :: "response \<Rightarrow> bool" where
  "ok r = (200 \<le> status r \<and> status r \<le> 299)"

definition json_of :: "response \<Rightarrow> thrown + json" where
  "json_of r = (case payload r of Json j \<Rightarrow> Inr j | Malformed m \<Rightarrow> Inl (Error m))"

text \<open>
  \<^verbatim>\<open>RequestInit\<close>. Its \<^verbatim>\<open>headers\<close> member has the type \<^verbatim>\<open>HeadersInit\<close>, which is a
  plain object, an array of name and value pairs, or a \<^verbatim>\<open>Headers\<close> instance. The
  values of a plain object are strings in the declared type; the object that
  \<^verbatim>\<open>authorizedFetch\<close> builds by spreading can hold an array as a value, so \<open>hval\<close>
  has both. Property names are compared as JavaScript does, character for character.
\<close>

datatype hval = HString string | HArray "string list"

datatype HeadersInit =
    Plain "(string \<times> hval) list"
  | Tuples "string list list"
  | HeadersInstance "(string \<times> string) list"

datatype BodyInit = Text string | URLSearchParams "(string \<times> string) list"

record RequestInit =
  http_method :: "string option"
  headers :: "HeadersInit option"
  body :: "BodyInit option"
  credentials :: "string option"
  others :: "(string \<times> string) list"

text \<open>The member \<^verbatim>\<open>method\<close> is the field \<open>http_method\<close>.\<close>

text \<open>The default value \<^verbatim>\<open>{}\<close> of the \<^verbatim>\<open>options\<close> parameter.\<close>

definition no_options :: RequestInit where
  "no_options = \<lparr>http_method = None, headers = None, body = None, credentials = None, others = []\<rparr>"

text \<open>
  The own enumerable string-keyed properties that \<^verbatim>\<open>{...options.headers}\<close> copies:
  those of a plain object; the indices of an array; none of a \<^verbatim>\<open>Headers\<close> instance
  (its entries are internal) and none of \<^verbatim>\<open>undefined\<close>.
\<close>

fun spread :: "HeadersInit option \<Rightarrow> (string \<times> hval) list" where
  "spread None = []"
| "spread (Some (Plain kvs)) = kvs"
| "spread (Some (Tuples ts)) = zip (map decimal [0..<length ts]) (map HArray ts)"
| "spread (Some (HeadersInstance _)) = []"

text \<open>
  A call of \<^verbatim>\<open>fetch\<close> is recorded in a trace of the requests issued so far. The
  network is a parameter: it answers a request, given the requests before it, with a
  response or with a failure (\<^verbatim>\<open>fetch\<close> then rejects with an \<^verbatim>\<open>Error\<close>).
\<close>

type_synonym request = "string \<times> RequestInit"

datatype outcome = Responded response | NetworkFailure string

type_synonym network = "request list \<Rightarrow> request \<Rightarrow> outcome"

definition fetch ::
  "network \<Rightarrow> string \<Rightarrow> RequestInit \<Rightarrow> request list \<Rightarrow> (thrown + response) \<times> request list" where
  "fetch net url init tr =
     (case net tr (url, init) of
        Responded r \<Rightarrow> Inr r
      | NetworkFailure m \<Rightarrow> Inl (Error m),
      tr @ [(url, init)])"

record env =
  API_CLIENT_ID :: "string option"
  API_CLIENT_SECRET :: "string option"
  NEXT_PUBLIC_API_URL :: "string option"

section \<open>\<^verbatim>\<open>src/actions/auth.ts\<close>\<close>

text \<open>
  \<^verbatim>\<open>BASE_URL\<close> is used by the module and not declared in the part shown; it is a
  parameter. The two \<^verbatim>\<open>console.error\<close> calls of \<^verbatim>\<open>authenticate\<close> write to the log
  only and are left out.
\<close>

definition token_init :: "env \<Rightarrow> RequestInit" where
  "token_init e =
     (let clientId = or_default (API_CLIENT_ID e) ''client'';
          clientSecret = or_default (API_CLIENT_SECRET e) ''secret'';
          formData = [(''grant_type'', ''client_credentials''), (''scope'', ''write'')]
      in \<lparr>http_method = Some ''POST'',
          headers = Some (Plain
            [(''Content-Type'', HString ''application/x-www-form-urlencoded''),
             (''Authorization'', HString (''Basic '' @ base64 (clientId @ '':'' @ clientSecret)))]),
          body = Some (URLSearchParams formData),
          credentials = Some ''include'',
          others = []\<rparr>)"

definition authenticate :: "network \<Rightarrow> env \<Rightarrow> string \<Rightarrow> request list \<Rightarrow> bool \<times> request list" where
  "authenticate net e BASE_URL tr =
     (case fetch net (BASE_URL @ ''/oauth2/token'') (token_init e) tr of
        (Inl error, tr') \<Rightarrow> (False, tr')
      | (Inr response, tr') \<Rightarrow> (if \<not> ok response then False else True, tr'))"

text \<open>
  The second argument of both \<^verbatim>\<open>fetch\<close> calls of \<^verbatim>\<open>authorizedFetch\<close>:
  \<^verbatim>\<open>{...options, headers: {...options.headers, "Content-Type": ..., Accept: ...},
  credentials: "include"}\<close>. Writing a property that the spread already copied replaces
  its value in place; a new one is added at the end, which is \<open>AList.update\<close>.
\<close>

definition forced_init :: "RequestInit \<Rightarrow> RequestInit" where
  "forced_init options =
     options\<lparr>headers := Some (Plain
                (AList.update ''Accept'' (HString ''application/json'')
                  (AList.update ''Content-Type'' (HString ''application/json'')
                    (spread (headers options))))),
             credentials := Some ''include''\<rparr>"

definition check_ok :: "response \<Rightarrow> thrown + response" where
  "check_ok response =
     (if \<not> ok response then Inl (Error (''API error: '' @ decimal (status response)))
      else Inr response)"

definition authorizedFetch ::
  "network \<Rightarrow> env \<Rightarrow> string \<Rightarrow> string \<Rightarrow> RequestInit \<Rightarrow> request list
     \<Rightarrow> (thrown + response) \<times> request list" where
  "authorizedFetch net e BASE_URL url options tr =
     (case fetch net url (forced_init options) tr of
        (Inl error, tr1) \<Rightarrow> (Inl error, tr1)
      | (Inr response, tr1) \<Rightarrow>
          if status response = 401 then
            (case authenticate net e BASE_URL tr1 of
               (authenticated, tr2) \<Rightarrow>
                 if \<not> authenticated then (Inl (Error ''Authentication failed''), tr2)
                 else
                   (case fetch net url (forced_init options) tr2 of
                      (Inl error, tr3) \<Rightarrow> (Inl error, tr3)
                    | (Inr response', tr3) \<Rightarrow> (check_ok response', tr3)))
          else (check_ok response, tr1))"

section \<open>\<^verbatim>\<open>src/lib/api-client.ts\<close>\<close>

definition fetchWithAuth ::
  "network \<Rightarrow> env \<Rightarrow> string \<Rightarrow> string \<Rightarrow> RequestInit \<Rightarrow> request list
     \<Rightarrow> (thrown + json) \<times> request list" where
  "fetchWithAuth net e BASE_URL endpoint options tr =
     (let API_URL = or_default (NEXT_PUBLIC_API_URL e) ''http://localhost:8080'';
          url = API_URL @ endpoint;
          (tried, tr') =
            (case authorizedFetch net e BASE_URL url options tr of
               (Inl error, tr') \<Rightarrow> (Inl error, tr')
             | (Inr response, tr') \<Rightarrow> (json_of response, tr'))
      in case tried of
           Inr v \<Rightarrow> (Inr v, tr')
         | Inl error \<Rightarrow>
             (if instanceof_Error error then
                (if str_includes (message error) ''API error: 401''
                 then Inl (ApiError ''Authentication failed'' 401 None)
                 else Inl (ApiError (message error) 500 None))
              else Inl (ApiError ''Unknown error'' 500 None),
              tr'))"

section \<open>\<^verbatim>\<open>src/actions/api.ts\<close>\<close>

text \<open>
  \<^verbatim>\<open>menuItemSchema\<close> with the two members the source shows; an object schema accepts
  an object whose members have the declared types and drops the members it does not
  declare. \<open>None\<close> is a failed validation.
\<close>

record MenuItem =
  item_id :: string
  item_name :: string

fun z_string :: "json option \<Rightarrow> string option" where
  "z_string (Some (JString s)) = Some s"
| "z_string _ = None"

fun menuItemSchema :: "json \<Rightarrow> MenuItem option" where
  "menuItemSchema (JObject members) =
     (case (z_string (map_of members ''id''), z_string (map_of members ''name'')) of
        (Some i, Some n) \<Rightarrow> Some \<lparr>item_id = i, item_name = n\<rparr>
      | _ \<Rightarrow> None)"
| "menuItemSchema _ = None"

fun all_some :: "'a option list \<Rightarrow> 'a list option" where
  "all_some [] = Some []"
| "all_some (None # _) = None"
| "all_some (Some x # xs) = (case all_some xs of None \<Rightarrow> None | Some ys \<Rightarrow> Some (x # ys))"

fun z_array :: "(json \<Rightarrow> 'a option) \<Rightarrow> json \<Rightarrow> 'a list option" where
  "z_array schema (JArray xs) = all_some (map schema xs)"
| "z_array schema _ = None"

text \<open>
  \<^verbatim>\<open>z.array(menuItemSchema).parse(data)\<close>: the items, or a \<^verbatim>\<open>ZodError\<close>. The text of
  its message is the library's rendering of the issues, a parameter here.
\<close>

definition parse_items :: "(json \<Rightarrow> string) \<Rightarrow> json \<Rightarrow> thrown + MenuItem list" where
  "parse_items zod_message data =
     (case z_array menuItemSchema data of
        None \<Rightarrow> Inl (ZodError (zod_message data))
      | Some items \<Rightarrow> Inr items)"

fun error_status :: "thrown \<Rightarrow> nat option" where
  "error_status (ApiError _ s _) = Some s"
| "error_status _ = None"

fun error_code :: "thrown \<Rightarrow> string option" where
  "error_code (ApiError _ _ c) = c"
| "error_code _ = None"

text \<open>The \<^verbatim>\<open>catch\<close> block of \<^verbatim>\<open>getMenuItems\<close>.\<close>

definition getMenuItems_catch :: "thrown \<Rightarrow> 'a ActionResult" where
  "getMenuItems_catch error =
     (if instanceof_ApiError error
      then Failure (message error) (error_code error) (error_status error)
      else if instanceof_ZodError error
      then Failure (''Invalid data format: '' @ message error) (Some ''VALIDATION_ERROR'') None
      else Failure (if instanceof_Error error then message error else ''Unknown error'') None None)"

definition getMenuItems ::
  "network \<Rightarrow> env \<Rightarrow> string \<Rightarrow> (json \<Rightarrow> string) \<Rightarrow> request list
     \<Rightarrow> MenuItem list ActionResult \<times> request list" where
  "getMenuItems net e BASE_URL zod_message tr =
     (case authorizedFetch net e BASE_URL (BASE_URL @ ''/api/menu'') no_options tr of
        (Inl error, tr') \<Rightarrow> (getMenuItems_catch error, tr')
      | (Inr response, tr') \<Rightarrow>
          (case json_of response of
             Inl error \<Rightarrow> (getMenuItems_catch error, tr')
           | Inr data \<Rightarrow>
               (case parse_items zod_message data of
                  Inl error \<Rightarrow> (getMenuItems_catch error, tr')
                | Inr items \<Rightarrow> (Success items, tr'))))"

section \<open>Names for the two requests, and networks to evaluate on\<close>

text \<open>
  \<open>scripted outs\<close> answers the \<open>n\<close>-th request of a run with the \<open>n\<close>-th outcome of
  the list, and fails once the list is used up.
\<close>

definition scripted :: "outcome list \<Rightarrow> network" where
  "scripted outs tr q =
     (if length tr < length outs then outs ! length tr else NetworkFailure ''fetch failed'')"

definition json_response :: "nat \<Rightarrow> json \<Rightarrow> response" where
  "json_response s j = \<lparr>status = s, payload = Json j\<rparr>"

definition no_env :: env where
  "no_env = \<lparr>API_CLIENT_ID = None, API_CLIENT_SECRET = None, NEXT_PUBLIC_API_URL = None\<rparr>"

definition issue_text :: "json \<Rightarrow> string" where
  "issue_text data = ''[]''"

abbreviation gateway_request :: "string \<Rightarrow> RequestInit \<Rightarrow> request" where
  "gateway_request url options \<equiv> (url, forced_init options)"

abbreviation token_request :: "env \<Rightarrow> string \<Rightarrow> request" where
  "token_request e BASE_URL \<equiv> (BASE_URL @ ''/oauth2/token'', token_init e)"

section \<open>The star rating: five stars at every rating\<close>

lemma star_cases: "i \<in> {1..5} \<Longrightarrow> i = 1 \<or> i = 2 \<or> i = 3 \<or> i = 4 \<or> i = (5::nat)"
  by (simp only: atLeastAtMost_iff) arith

lemma stars_distinct:
  "full_star i \<noteq> half_star i" "full_star i \<noteq> empty_star i" "half_star i \<noteq> empty_star i"
  by (simp_all add: full_star_def half_star_def empty_star_def)

lemma StarRating_Finite:
  "StarRating (Finite q) =
     map (\<lambda>i. if int i \<le> \<lfloor>q\<rfloor> then full_star i
              else if of_nat i - 1 / 2 = q then half_star i else empty_star i)
         [1, 2, 3, 4, 5]"
proof -
  have le: "(of_nat i \<le> (of_int \<lfloor>q\<rfloor> :: rat)) = (int i \<le> \<lfloor>q\<rfloor>)" for i
    by (metis of_int_le_iff of_int_of_nat_eq)
  show ?thesis
    unfolding StarRating_def Math_floor.simps num_le.simps num_sub.simps strict_eq.simps
      le number.inject ..
qed

lemma StarRating_Finite_nth:
  assumes "i \<in> {1..5}"
  shows "StarRating (Finite q) ! (i - 1) =
           (if int i \<le> \<lfloor>q\<rfloor> then full_star i
            else if of_nat i - 1 / 2 = q then half_star i else empty_star i)"
  using star_cases [OF assms] unfolding StarRating_Finite
  by (elim disjE) simp_all

lemma half_not_full: "\<not> int i \<le> \<lfloor>q\<rfloor>" if "of_nat i - 1 / 2 = q" for i and q :: rat
proof -
  have "q < of_int (int i)" using that by auto
  then have "\<lfloor>q\<rfloor> < int i" using floor_less_iff by blast
  then show ?thesis by simp
qed

lemma StarRating_Finite_iff:
  assumes "i \<in> {1..5}"
  shows "(StarRating (Finite q) ! (i - 1) = full_star i \<longleftrightarrow> int i \<le> \<lfloor>q\<rfloor>) \<and>
      (StarRating (Finite q) ! (i - 1) = half_star i \<longleftrightarrow> of_nat i - 1 / 2 = q) \<and>
      (StarRating (Finite q) ! (i - 1) = empty_star i \<longleftrightarrow>
         \<not> int i \<le> \<lfloor>q\<rfloor> \<and> of_nat i - 1 / 2 \<noteq> q)"
proof (cases "int i \<le> \<lfloor>q\<rfloor>")
  case True
  then have "of_nat i - 1 / 2 \<noteq> q" using half_not_full by blast
  with True stars_distinct [of i] show ?thesis
    unfolding StarRating_Finite_nth [OF assms] by simp
next
  case False
  with stars_distinct [of i] stars_distinct [of i, symmetric] show ?thesis
    unfolding StarRating_Finite_nth [OF assms] by (cases "of_nat i - 1 / 2 = q") simp_all
qed

text \<open>
  C10. \<^verbatim>\<open>StarRating\<close> renders five elements at every rating. At a finite rating \<open>q\<close>
  the element at position \<open>i\<close> (from 1 to 5) is the filled full star exactly when
  \<open>i \<le> \<lfloor>q\<rfloor>\<close>, the filled half star exactly when \<open>i - 1/2 = q\<close>, and the unfilled
  star in every other case. With the comparisons of JavaScript, which are false on
  \<^verbatim>\<open>NaN\<close>, the same reading gives five unfilled stars at \<^verbatim>\<open>NaN\<close> and at
  \<^verbatim>\<open>-Infinity\<close> and five full stars at \<^verbatim>\<open>Infinity\<close>.
\<close>

theorem StarRating_five_stars:
  "length (StarRating rating) = 5 \<and>
   (\<forall>i \<in> {1..5}. \<forall>q. rating = Finite q \<longrightarrow>
      (StarRating rating ! (i - 1) = full_star i \<longleftrightarrow> int i \<le> \<lfloor>q\<rfloor>) \<and>
      (StarRating rating ! (i - 1) = half_star i \<longleftrightarrow> of_nat i - 1 / 2 = q) \<and>
      (StarRating rating ! (i - 1) = empty_star i \<longleftrightarrow>
         \<not> int i \<le> \<lfloor>q\<rfloor> \<and> of_nat i - 1 / 2 \<noteq> q)) \<and>
   (rating = PosInfinity \<longrightarrow> StarRating rating = map full_star [1, 2, 3, 4, 5]) \<and>
   (rating = NaN \<or> rating = NegInfinity \<longrightarrow> StarRating rating = map empty_star [1, 2, 3, 4, 5])"
proof -
  have len: "length (StarRating rating) = 5"
    by (simp add: StarRating_def)
  have inf: "StarRating PosInfinity = map full_star [1, 2, 3, 4, 5]"
    by (simp add: StarRating_def)
  have nan: "StarRating NaN = map empty_star [1, 2, 3, 4, 5]"
    by (simp add: StarRating_def)
  have neg: "StarRating NegInfinity = map empty_star [1, 2, 3, 4, 5]"
    by (simp add: StarRating_def)
  have fin': "\<forall>i \<in> {1..5}. \<forall>q. rating = Finite q \<longrightarrow>
      (StarRating rating ! (i - 1) = full_star i \<longleftrightarrow> int i \<le> \<lfloor>q\<rfloor>) \<and>
      (StarRating rating ! (i - 1) = half_star i \<longleftrightarrow> of_nat i - 1 / 2 = q) \<and>
      (StarRating rating ! (i - 1) = empty_star i \<longleftrightarrow>
         \<not> int i \<le> \<lfloor>q\<rfloor> \<and> of_nat i - 1 / 2 \<noteq> q)"
  proof (intro ballI allI impI)
    fix i :: nat and q :: rat
    assume i: "i \<in> {1..5}" and r: "rating = Finite q"
    show "(StarRating rating ! (i - 1) = full_star i \<longleftrightarrow> int i \<le> \<lfloor>q\<rfloor>) \<and>
      (StarRating rating ! (i - 1) = half_star i \<longleftrightarrow> of_nat i - 1 / 2 = q) \<and>
      (StarRating rating ! (i - 1) = empty_star i \<longleftrightarrow>
         \<not> int i \<le> \<lfloor>q\<rfloor> \<and> of_nat i - 1 / 2 \<noteq> q)"
      unfolding r by (rule StarRating_Finite_iff [OF i])
  qed
  have inf': "rating = PosInfinity \<longrightarrow> StarRating rating = map full_star [1, 2, 3, 4, 5]"
    using inf by (intro impI) (simp only:)
  have nan': "rating = NaN \<or> rating = NegInfinity \<longrightarrow>
      StarRating rating = map empty_star [1, 2, 3, 4, 5]"
    using nan neg by (intro impI) (elim disjE; simp only:)
  show ?thesis
    by (intro conjI) (rule len, rule fin', rule inf', rule nan')
qed

theorem StarRating_five_stars_witness:
  "(4::nat) \<in> {1..5} \<and> length (StarRating (Finite (7 / 2))) = 5 \<and>
   StarRating (Finite (7 / 2)) ! (4 - 1) = half_star 4 \<and>
   StarRating (Finite (7 / 2)) ! (4 - 1) \<noteq> full_star 4 \<and>
   StarRating (Finite (7 / 2)) ! (4 - 1) \<noteq> empty_star 4"
proof -
  have h: "(4::nat) \<in> {1..5}" by simp
  have q: "rat_of_nat 4 - 1 / 2 = 7 / 2" by simp
  have f: "\<not> int 4 \<le> \<lfloor>7 / 2 :: rat\<rfloor>" by simp
  note t = StarRating_five_stars [of "Finite (7 / 2)"]
  from t have len: "length (StarRating (Finite (7 / 2))) = 5"
    by (rule conjunct1)
  from t have "\<forall>i \<in> {1..5}. \<forall>q. Finite (7 / 2) = Finite q \<longrightarrow>
      (StarRating (Finite (7 / 2)) ! (i - 1) = full_star i \<longleftrightarrow> int i \<le> \<lfloor>q\<rfloor>) \<and>
      (StarRating (Finite (7 / 2)) ! (i - 1) = half_star i \<longleftrightarrow> of_nat i - 1 / 2 = q) \<and>
      (StarRating (Finite (7 / 2)) ! (i - 1) = empty_star i \<longleftrightarrow>
         \<not> int i \<le> \<lfloor>q\<rfloor> \<and> of_nat i - 1 / 2 \<noteq> q)"
    by (rule conjunct1 [OF conjunct2])
  from bspec [OF this h, THEN spec, of "7 / 2", THEN mp, OF refl]
  have *: "(StarRating (Finite (7 / 2)) ! (4 - 1) = full_star 4 \<longleftrightarrow> int 4 \<le> \<lfloor>7 / 2 :: rat\<rfloor>) \<and>
      (StarRating (Finite (7 / 2)) ! (4 - 1) = half_star 4 \<longleftrightarrow> rat_of_nat 4 - 1 / 2 = 7 / 2) \<and>
      (StarRating (Finite (7 / 2)) ! (4 - 1) = empty_star 4 \<longleftrightarrow>
         \<not> int 4 \<le> \<lfloor>7 / 2 :: rat\<rfloor> \<and> rat_of_nat 4 - 1 / 2 \<noteq> 7 / 2)" .
  from * q have at4: "StarRating (Finite (7 / 2)) ! (4 - 1) = half_star 4"
    by (simp only: simp_thms)
  from * f have nf: "StarRating (Finite (7 / 2)) ! (4 - 1) \<noteq> full_star 4"
    by (simp only: simp_thms)
  have ne: "StarRating (Finite (7 / 2)) ! (4 - 1) \<noteq> empty_star 4"
    by (simp only: at4 stars_distinct not_False_eq_True)
  from h len at4 nf ne show ?thesis by (intro conjI)
qed

section \<open>The token provider and the gateway\<close>

lemma fetch_Responded:
  "net tr (url, init) = Responded r \<Longrightarrow> fetch net url init tr = (Inr r, tr @ [(url, init)])"
  by (simp add: fetch_def)

lemma fetch_NetworkFailure:
  "net tr (url, init) = NetworkFailure m \<Longrightarrow> fetch net url init tr = (Inl (Error m), tr @ [(url, init)])"
  by (simp add: fetch_def)

lemma snd_fetch: "snd (fetch net url init tr) = tr @ [(url, init)]"
  by (simp add: fetch_def)

lemma authenticate_eq:
  "authenticate net e B tr =
     ((case net tr (B @ ''/oauth2/token'', token_init e) of
         Responded r \<Rightarrow> ok r
       | NetworkFailure m \<Rightarrow> False),
      tr @ [(B @ ''/oauth2/token'', token_init e)])"
  by (simp add: authenticate_def fetch_def split: outcome.split)

lemma snd_authenticate: "snd (authenticate net e B tr) = tr @ [(B @ ''/oauth2/token'', token_init e)]"
  by (simp add: authenticate_eq)

lemma token_init_eq:
  "token_init e =
     \<lparr>http_method = Some ''POST'',
      headers = Some (Plain
        [(''Content-Type'', HString ''application/x-www-form-urlencoded''),
         (''Authorization'',
          HString (''Basic '' @
            base64 (or_default (API_CLIENT_ID e) ''client'' @ '':'' @
                    or_default (API_CLIENT_SECRET e) ''secret'')))]),
      body = Some (URLSearchParams [(''grant_type'', ''client_credentials''), (''scope'', ''write'')]),
      credentials = Some ''include'',
      others = []\<rparr>"
  by (simp add: token_init_def)

text \<open>
  C6. Every call of \<^verbatim>\<open>authenticate\<close> issues exactly one request: a \<^verbatim>\<open>POST\<close> to
  \<^verbatim>\<open>BASE_URL/oauth2/token\<close> whose body is the form
  \<^verbatim>\<open>grant_type=client_credentials&scope=write\<close>, with the header
  \<^verbatim>\<open>Authorization: Basic base64(id:secret)\<close> and credentials included. It returns true
  exactly when the response status is in 200 to 299, and false on every other status and
  on a network failure. It has no way to throw: its result is a boolean and the trace.
\<close>

theorem authenticate_one_token_request:
  "authenticate net e BASE_URL tr =
     ((case net tr (BASE_URL @ ''/oauth2/token'', token_init e) of
         Responded r \<Rightarrow> 200 \<le> status r \<and> status r \<le> 299
       | NetworkFailure m \<Rightarrow> False),
      tr @ [(BASE_URL @ ''/oauth2/token'', token_init e)]) \<and>
   token_init e =
     \<lparr>http_method = Some ''POST'',
      headers = Some (Plain
        [(''Content-Type'', HString ''application/x-www-form-urlencoded''),
         (''Authorization'',
          HString (''Basic '' @
            base64 (or_default (API_CLIENT_ID e) ''client'' @ '':'' @
                    or_default (API_CLIENT_SECRET e) ''secret'')))]),
      body = Some (URLSearchParams [(''grant_type'', ''client_credentials''), (''scope'', ''write'')]),
      credentials = Some ''include'',
      others = []\<rparr>"
  unfolding authenticate_eq ok_def using token_init_eq by (intro conjI) (rule refl)

lemma base64_client_secret: "base64 ''client:secret'' = ''Y2xpZW50OnNlY3JldA==''"
  by code_simp

lemma decimal_401: "decimal 401 = ''401''" by code_simp
lemma decimal_404: "decimal 404 = ''404''" by code_simp
lemma decimal_500: "decimal 500 = ''500''" by code_simp


lemma authorizedFetch_first_failure:
  assumes "net tr (url, forced_init options) = NetworkFailure m"
  shows "authorizedFetch net e B url options tr = (Inl (Error m), tr @ [(url, forced_init options)])"
  using assms by (simp add: authorizedFetch_def fetch_def)

lemma authorizedFetch_first_not_401:
  assumes "net tr (url, forced_init options) = Responded r" and "status r \<noteq> 401"
  shows "authorizedFetch net e B url options tr = (check_ok r, tr @ [(url, forced_init options)])"
  using assms by (simp add: authorizedFetch_def fetch_def)

lemma authorizedFetch_not_authenticated:
  assumes "net tr (url, forced_init options) = Responded r" and "status r = 401"
    and "\<not> fst (authenticate net e B (tr @ [(url, forced_init options)]))"
  shows "authorizedFetch net e B url options tr =
           (Inl (Error ''Authentication failed''),
            tr @ [(url, forced_init options), (B @ ''/oauth2/token'', token_init e)])"
proof -
  obtain a tr2 where a: "authenticate net e B (tr @ [(url, forced_init options)]) = (a, tr2)"
    by (cases "authenticate net e B (tr @ [(url, forced_init options)])")
  from a have tr2: "tr2 = tr @ [(url, forced_init options), (B @ ''/oauth2/token'', token_init e)]"
    using snd_authenticate [of net e B "tr @ [(url, forced_init options)]"] by simp
  from a assms(3) have "\<not> a" by simp
  with a tr2 assms(1,2) show ?thesis
    by (simp add: authorizedFetch_def fetch_def)
qed

lemma authorizedFetch_retry:
  assumes "net tr (url, forced_init options) = Responded r" and "status r = 401"
    and "fst (authenticate net e B (tr @ [(url, forced_init options)]))"
  shows "authorizedFetch net e B url options tr =
           ((case net (tr @ [(url, forced_init options), (B @ ''/oauth2/token'', token_init e)])
                      (url, forced_init options) of
               Responded r2 \<Rightarrow> check_ok r2
             | NetworkFailure m \<Rightarrow> Inl (Error m)),
            tr @ [(url, forced_init options), (B @ ''/oauth2/token'', token_init e),
                  (url, forced_init options)])"
proof -
  obtain a tr2 where a: "authenticate net e B (tr @ [(url, forced_init options)]) = (a, tr2)"
    by (cases "authenticate net e B (tr @ [(url, forced_init options)])")
  from a have tr2: "tr2 = tr @ [(url, forced_init options), (B @ ''/oauth2/token'', token_init e)]"
    using snd_authenticate [of net e B "tr @ [(url, forced_init options)]"] by simp
  from a assms(3) have "a" by simp
  with a tr2 assms(1,2) show ?thesis
    by (simp add: authorizedFetch_def fetch_def split: outcome.split)
qed

text \<open>
  C1. When the first response has status 401 and \<^verbatim>\<open>authenticate\<close> returns true, the
  gateway issues the first request a second time, unchanged (same url, same options with
  the forced headers and credentials), and no further request: the trace grows by the
  request, the token request and the request again. The result comes from the retried
  request: its response when the status is in 200 to 299, the error naming its status
  otherwise, the network failure when it has no response.
\<close>

theorem authorizedFetch_retries_once:
  assumes "net tr (url, forced_init options) = Responded r1" and "status r1 = 401"
    and "fst (authenticate net e BASE_URL (tr @ [(url, forced_init options)]))"
  shows "authorizedFetch net e BASE_URL url options tr =
           ((case net (tr @ [(url, forced_init options), (BASE_URL @ ''/oauth2/token'', token_init e)])
                      (url, forced_init options) of
               Responded r2 \<Rightarrow>
                 if 200 \<le> status r2 \<and> status r2 \<le> 299 then Inr r2
                 else Inl (Error (''API error: '' @ decimal (status r2)))
             | NetworkFailure m \<Rightarrow> Inl (Error m)),
            tr @ [(url, forced_init options), (BASE_URL @ ''/oauth2/token'', token_init e),
                  (url, forced_init options)])"
  unfolding authorizedFetch_retry [where net = net and tr = tr, OF assms]
  by (simp add: check_ok_def ok_def split: outcome.split)


lemma getMenuItems_catch_Error [simp]:
  "getMenuItems_catch (Error m) = Failure m None None"
  by (simp add: getMenuItems_catch_def)

lemma getMenuItems_catch_ZodError [simp]:
  "getMenuItems_catch (ZodError m) = Failure (''Invalid data format: '' @ m) (Some ''VALIDATION_ERROR'') None"
  by (simp add: getMenuItems_catch_def)

lemma gateway_not_token: "gateway_request url options \<noteq> token_request e B"
proof
  assume eq: "gateway_request url options = token_request e B"
  then have "headers (forced_init options) = headers (token_init e)" by simp
  then have "map_of (AList.update ''Accept'' (HString ''application/json'')
                  (AList.update ''Content-Type'' (HString ''application/json'')
                    (spread (headers options)))) ''Content-Type''
             = map_of [(''Content-Type'', HString ''application/x-www-form-urlencoded''),
                 (''Authorization'',
                  HString (''Basic '' @
                    base64 (or_default (API_CLIENT_ID e) ''client'' @ '':'' @
                            or_default (API_CLIENT_SECRET e) ''secret'')))] ''Content-Type''"
    by (simp add: forced_init_def token_init_eq)
  then show False
    by (simp add: update_conv')
qed

lemma authorizedFetch_throws_Error:
  assumes t: "authorizedFetch net e BASE_URL url options tr = (Inl err, tr')"
  shows "\<exists>m. err = Error m"
proof (cases "net tr (gateway_request url options)")
  case (NetworkFailure m)
  with t show ?thesis by (auto simp: authorizedFetch_first_failure)
next
  case (Responded r)
  show ?thesis
  proof (cases "status r = 401")
    case False
    with Responded t show ?thesis
      by (auto simp: authorizedFetch_first_not_401 check_ok_def split: if_splits)
  next
    case True
    show ?thesis
    proof (cases "fst (authenticate net e BASE_URL (tr @ [gateway_request url options]))")
      case True
      from authorizedFetch_retry [where net = net and tr = tr, OF Responded \<open>status r = 401\<close> True] t show ?thesis
        by (auto simp: check_ok_def split: outcome.splits if_splits)
    next
      case False
      from authorizedFetch_not_authenticated [where net = net and tr = tr, OF Responded \<open>status r = 401\<close> False] t
      show ?thesis by auto
    qed
  qed
qed

text \<open>
  C2. When the first response has status 401 and \<^verbatim>\<open>authenticate\<close> returns false, the
  gateway throws an error with the message \<^verbatim>\<open>Authentication failed\<close> and issues no
  request after the token request. \<^verbatim>\<open>getMenuItems\<close> then returns
  \<^verbatim>\<open>{success: false, error: "Authentication failed"}\<close>, without code and status.
\<close>

theorem authorizedFetch_reauthentication_fails:
  assumes "net tr (gateway_request url options) = Responded r1" and "status r1 = 401"
    and "\<not> fst (authenticate net e BASE_URL (tr @ [gateway_request url options]))"
  shows "authorizedFetch net e BASE_URL url options tr =
           (Inl (Error ''Authentication failed''),
            tr @ [gateway_request url options, token_request e BASE_URL]) \<and>
         (url = BASE_URL @ ''/api/menu'' \<and> options = no_options \<longrightarrow>
            getMenuItems net e BASE_URL zod_message tr =
              (Failure ''Authentication failed'' None None,
               tr @ [gateway_request url options, token_request e BASE_URL]))"
proof -
  note a = authorizedFetch_not_authenticated [where net = net and tr = tr, OF assms]
  then show ?thesis
    by (auto simp: getMenuItems_def)
qed

text \<open>
  C3. A call of \<^verbatim>\<open>authorizedFetch\<close> issues the request alone, or the request and one
  token request, or the request, one token request and the request again; the token
  request is never the gateway's own request, so \<^verbatim>\<open>authenticate\<close> runs at most once.
  A 401 on the retried request is final: the call fails with the error for status 401,
  and the trace ends with the retried request.
\<close>

theorem authorizedFetch_at_most_one_reauthentication:
  "(snd (authorizedFetch net e BASE_URL url options tr) = tr @ [gateway_request url options] \<or>
    snd (authorizedFetch net e BASE_URL url options tr) =
      tr @ [gateway_request url options, token_request e BASE_URL] \<or>
    snd (authorizedFetch net e BASE_URL url options tr) =
      tr @ [gateway_request url options, token_request e BASE_URL, gateway_request url options]) \<and>
   gateway_request url options \<noteq> token_request e BASE_URL \<and>
   (\<forall>r1 r2.
      net tr (gateway_request url options) = Responded r1 \<and> status r1 = 401 \<and>
      fst (authenticate net e BASE_URL (tr @ [gateway_request url options])) \<and>
      net (tr @ [gateway_request url options, token_request e BASE_URL])
          (gateway_request url options) = Responded r2 \<and> status r2 = 401 \<longrightarrow>
      authorizedFetch net e BASE_URL url options tr =
        (Inl (Error ''API error: 401''),
         tr @ [gateway_request url options, token_request e BASE_URL,
               gateway_request url options]))"
proof (intro conjI allI impI)
  show "snd (authorizedFetch net e BASE_URL url options tr) = tr @ [gateway_request url options] \<or>
    snd (authorizedFetch net e BASE_URL url options tr) =
      tr @ [gateway_request url options, token_request e BASE_URL] \<or>
    snd (authorizedFetch net e BASE_URL url options tr) =
      tr @ [gateway_request url options, token_request e BASE_URL, gateway_request url options]"
  proof (cases "net tr (gateway_request url options)")
    case (NetworkFailure m)
    then show ?thesis by (simp add: authorizedFetch_first_failure)
  next
    case (Responded r)
    show ?thesis
    proof (cases "status r = 401")
      case False
      with Responded show ?thesis by (simp add: authorizedFetch_first_not_401)
    next
      case True
      show ?thesis
      proof (cases "fst (authenticate net e BASE_URL (tr @ [gateway_request url options]))")
        case True
        from authorizedFetch_retry [where net = net and tr = tr, OF Responded \<open>status r = 401\<close> True] show ?thesis by simp
      next
        case False
        from authorizedFetch_not_authenticated [where net = net and tr = tr, OF Responded \<open>status r = 401\<close> False]
        show ?thesis by simp
      qed
    qed
  qed
next
  show "gateway_request url options \<noteq> token_request e BASE_URL"
    by (rule gateway_not_token)
next
  fix r1 r2
  assume h: "net tr (gateway_request url options) = Responded r1 \<and> status r1 = 401 \<and>
      fst (authenticate net e BASE_URL (tr @ [gateway_request url options])) \<and>
      net (tr @ [gateway_request url options, token_request e BASE_URL])
          (gateway_request url options) = Responded r2 \<and> status r2 = 401"
  then have a: "net tr (gateway_request url options) = Responded r1" and b: "status r1 = 401"
    and c: "fst (authenticate net e BASE_URL (tr @ [gateway_request url options]))"
    and d: "net (tr @ [gateway_request url options, token_request e BASE_URL])
          (gateway_request url options) = Responded r2" and f: "status r2 = 401"
    by simp_all
  from f have "check_ok r2 = Inl (Error ''API error: 401'')"
    by (simp add: check_ok_def ok_def decimal_401)
  with authorizedFetch_retry [where net = net and tr = tr, OF a b c] d
  show "authorizedFetch net e BASE_URL url options tr =
        (Inl (Error ''API error: 401''),
         tr @ [gateway_request url options, token_request e BASE_URL,
               gateway_request url options])"
    by simp
qed

text \<open>
  C4, as amended. When the first response has a status other than 401, the gateway issues
  no second request and does not authenticate; it returns that response unchanged when
  its status is in 200 to 299, and otherwise throws the error naming the status.
\<close>

theorem authorizedFetch_first_response_not_401:
  assumes "net tr (gateway_request url options) = Responded r" and "status r \<noteq> 401"
  shows "authorizedFetch net e BASE_URL url options tr =
           (if 200 \<le> status r \<and> status r \<le> 299 then Inr r
            else Inl (Error (''API error: '' @ decimal (status r))),
            tr @ [gateway_request url options])"
  unfolding authorizedFetch_first_not_401 [where net = net and tr = tr, OF assms]
  by (simp add: check_ok_def ok_def)

text \<open>
  C5, as amended. When the final response (the first one, or the retried one after a 401
  and a successful authentication) has a status outside 200 to 299, the call throws, and
  does not return the response. What it throws is a plain \<^verbatim>\<open>Error\<close> whose message is
  \<^verbatim>\<open>API error: \<close> followed by the status in decimal: nothing \<^verbatim>\<open>authorizedFetch\<close>
  throws is an \<^verbatim>\<open>ApiError\<close> or has a status member.
\<close>

theorem authorizedFetch_failure_is_plain_Error:
  "(\<forall>r. net tr (gateway_request url options) = Responded r \<and> status r \<noteq> 401 \<and>
        \<not> (200 \<le> status r \<and> status r \<le> 299) \<longrightarrow>
      authorizedFetch net e BASE_URL url options tr =
        (Inl (Error (''API error: '' @ decimal (status r))), tr @ [gateway_request url options])) \<and>
   (\<forall>r1 r.
      net tr (gateway_request url options) = Responded r1 \<and> status r1 = 401 \<and>
      fst (authenticate net e BASE_URL (tr @ [gateway_request url options])) \<and>
      net (tr @ [gateway_request url options, token_request e BASE_URL])
          (gateway_request url options) = Responded r \<and>
      \<not> (200 \<le> status r \<and> status r \<le> 299) \<longrightarrow>
      authorizedFetch net e BASE_URL url options tr =
        (Inl (Error (''API error: '' @ decimal (status r))),
         tr @ [gateway_request url options, token_request e BASE_URL,
               gateway_request url options])) \<and>
   (\<forall>err tr'. authorizedFetch net e BASE_URL url options tr = (Inl err, tr') \<longrightarrow>
      \<not> instanceof_ApiError err \<and> error_status err = None)"
proof (intro conjI allI impI)
  fix r
  assume "net tr (gateway_request url options) = Responded r \<and> status r \<noteq> 401 \<and>
        \<not> (200 \<le> status r \<and> status r \<le> 299)"
  then have a: "net tr (gateway_request url options) = Responded r" and b: "status r \<noteq> 401"
    and c: "\<not> ok r" by (simp_all add: ok_def)
  from c show "authorizedFetch net e BASE_URL url options tr =
        (Inl (Error (''API error: '' @ decimal (status r))), tr @ [gateway_request url options])"
    unfolding authorizedFetch_first_not_401 [where net = net and tr = tr, OF a b] by (simp add: check_ok_def)
next
  fix r1 r
  assume "net tr (gateway_request url options) = Responded r1 \<and> status r1 = 401 \<and>
      fst (authenticate net e BASE_URL (tr @ [gateway_request url options])) \<and>
      net (tr @ [gateway_request url options, token_request e BASE_URL])
          (gateway_request url options) = Responded r \<and>
      \<not> (200 \<le> status r \<and> status r \<le> 299)"
  then have a: "net tr (gateway_request url options) = Responded r1" and b: "status r1 = 401"
    and c: "fst (authenticate net e BASE_URL (tr @ [gateway_request url options]))"
    and d: "net (tr @ [gateway_request url options, token_request e BASE_URL])
          (gateway_request url options) = Responded r" and f: "\<not> ok r"
    by (simp_all add: ok_def)
  from d f show "authorizedFetch net e BASE_URL url options tr =
        (Inl (Error (''API error: '' @ decimal (status r))),
         tr @ [gateway_request url options, token_request e BASE_URL,
               gateway_request url options])"
    unfolding authorizedFetch_retry [where net = net and tr = tr, OF a b c] by (simp add: check_ok_def)
next
  fix err tr'
  assume "authorizedFetch net e BASE_URL url options tr = (Inl err, tr')"
  then have "\<exists>m. err = Error m" by (rule authorizedFetch_throws_Error)
  then show "\<not> instanceof_ApiError err" and "error_status err = None" by auto
qed

section \<open>The token provider and the gateway at concrete networks\<close>

lemma no_env_token_init:
  "token_init no_env =
     \<lparr>http_method = Some ''POST'',
      headers = Some (Plain
        [(''Content-Type'', HString ''application/x-www-form-urlencoded''),
         (''Authorization'', HString ''Basic Y2xpZW50OnNlY3JldA=='')]),
      body = Some (URLSearchParams [(''grant_type'', ''client_credentials''), (''scope'', ''write'')]),
      credentials = Some ''include'',
      others = []\<rparr>"
proof -
  have "or_default (API_CLIENT_ID no_env) ''client'' @ '':'' @
        or_default (API_CLIENT_SECRET no_env) ''secret'' = ''client:secret''"
    by (simp add: no_env_def)
  then show ?thesis
    unfolding token_init_eq by (simp only: base64_client_secret append.simps)
qed

theorem authenticate_one_token_request_witness:
  "authenticate (scripted [Responded (json_response 200 JNull)]) no_env ''https://api.example'' [] =
     (True,
      [(''https://api.example/oauth2/token'',
        \<lparr>http_method = Some ''POST'',
         headers = Some (Plain
           [(''Content-Type'', HString ''application/x-www-form-urlencoded''),
            (''Authorization'', HString ''Basic Y2xpZW50OnNlY3JldA=='')]),
         body = Some (URLSearchParams
           [(''grant_type'', ''client_credentials''), (''scope'', ''write'')]),
         credentials = Some ''include'',
         others = []\<rparr>)]) \<and>
   fst (authenticate (scripted [Responded (json_response 503 JNull)]) no_env
          ''https://api.example'' []) = False \<and>
   fst (authenticate (scripted [NetworkFailure ''fetch failed'']) no_env
          ''https://api.example'' []) = False"
proof -
  note t = authenticate_one_token_request [where e = no_env and BASE_URL = "''https://api.example''"
      and tr = "[]"]
  from t [where net = "scripted [Responded (json_response 200 JNull)]", THEN conjunct1]
  have a: "authenticate (scripted [Responded (json_response 200 JNull)]) no_env
             ''https://api.example'' [] =
           (True, [(''https://api.example/oauth2/token'', token_init no_env)])"
    by (simp add: scripted_def json_response_def)
  from t [where net = "scripted [Responded (json_response 503 JNull)]", THEN conjunct1]
  have b: "fst (authenticate (scripted [Responded (json_response 503 JNull)]) no_env
          ''https://api.example'' []) = False"
    by (simp add: scripted_def json_response_def)
  from t [where net = "scripted [NetworkFailure ''fetch failed'']", THEN conjunct1]
  have c: "fst (authenticate (scripted [NetworkFailure ''fetch failed'']) no_env
          ''https://api.example'' []) = False"
    by (simp add: scripted_def)
  from a b c show ?thesis
    unfolding no_env_token_init by (intro conjI)
qed


theorem authorizedFetch_retries_once_witness:
  "authorizedFetch
     (scripted [Responded (json_response 401 JNull), Responded (json_response 200 JNull),
                Responded (json_response 200 (JString ''menu''))])
     no_env ''https://api.example'' ''https://api.example/api/menu'' no_options [] =
   (Inr (json_response 200 (JString ''menu'')),
    [gateway_request ''https://api.example/api/menu'' no_options,
     token_request no_env ''https://api.example'',
     gateway_request ''https://api.example/api/menu'' no_options])"
proof -
  let ?net = "scripted [Responded (json_response 401 JNull), Responded (json_response 200 JNull),
                Responded (json_response 200 (JString ''menu''))]"
  have h1: "?net [] (gateway_request ''https://api.example/api/menu'' no_options) =
              Responded (json_response 401 JNull)"
    by (simp add: scripted_def)
  have h2: "status (json_response 401 JNull) = 401"
    by (simp add: json_response_def)
  have h3: "fst (authenticate ?net no_env ''https://api.example''
                  ([] @ [gateway_request ''https://api.example/api/menu'' no_options]))"
    by (simp add: authenticate_eq scripted_def ok_def json_response_def)
  from authorizedFetch_retries_once [where net = ?net and tr = "[]", OF h1 h2 h3]
  show ?thesis
    by (simp add: scripted_def json_response_def)
qed

theorem authorizedFetch_reauthentication_fails_witness:
  "authorizedFetch
     (scripted [Responded (json_response 401 JNull), Responded (json_response 403 JNull)])
     no_env ''https://api.example'' ''https://api.example/api/menu'' no_options [] =
   (Inl (Error ''Authentication failed''),
    [gateway_request ''https://api.example/api/menu'' no_options,
     token_request no_env ''https://api.example'']) \<and>
   getMenuItems
     (scripted [Responded (json_response 401 JNull), Responded (json_response 403 JNull)])
     no_env ''https://api.example'' issue_text [] =
   (Failure ''Authentication failed'' None None,
    [gateway_request ''https://api.example/api/menu'' no_options,
     token_request no_env ''https://api.example''])"
proof -
  let ?net = "scripted [Responded (json_response 401 JNull), Responded (json_response 403 JNull)]"
  have h1: "?net [] (gateway_request ''https://api.example/api/menu'' no_options) =
              Responded (json_response 401 JNull)"
    by (simp add: scripted_def)
  have h2: "status (json_response 401 JNull) = 401"
    by (simp add: json_response_def)
  have h3: "\<not> fst (authenticate ?net no_env ''https://api.example''
                  ([] @ [gateway_request ''https://api.example/api/menu'' no_options]))"
    by (simp add: authenticate_eq scripted_def ok_def json_response_def)
  from authorizedFetch_reauthentication_fails [where net = ?net and tr = "[]"
      and zod_message = issue_text, OF h1 h2 h3]
  show ?thesis by simp
qed

theorem authorizedFetch_at_most_one_reauthentication_witness:
  "authorizedFetch
     (scripted [Responded (json_response 401 JNull), Responded (json_response 200 JNull),
                Responded (json_response 401 JNull)])
     no_env ''https://api.example'' ''https://api.example/api/menu'' no_options [] =
   (Inl (Error ''API error: 401''),
    [gateway_request ''https://api.example/api/menu'' no_options,
     token_request no_env ''https://api.example'',
     gateway_request ''https://api.example/api/menu'' no_options])"
proof -
  let ?net = "scripted [Responded (json_response 401 JNull), Responded (json_response 200 JNull),
                Responded (json_response 401 JNull)]"
  have h1: "?net [] (gateway_request ''https://api.example/api/menu'' no_options) =
              Responded (json_response 401 JNull)"
    by (simp add: scripted_def)
  have h2: "status (json_response 401 JNull) = 401"
    by (simp add: json_response_def)
  have h3: "fst (authenticate ?net no_env ''https://api.example''
                  ([] @ [gateway_request ''https://api.example/api/menu'' no_options]))"
    by (simp add: authenticate_eq scripted_def ok_def json_response_def)
  have h4: "?net ([] @ [gateway_request ''https://api.example/api/menu'' no_options,
                        token_request no_env ''https://api.example''])
              (gateway_request ''https://api.example/api/menu'' no_options) =
            Responded (json_response 401 JNull)"
    by (simp add: scripted_def)
  from authorizedFetch_at_most_one_reauthentication [where net = ?net and tr = "[]"
      and e = no_env and BASE_URL = "''https://api.example''"
      and url = "''https://api.example/api/menu''" and options = no_options,
      THEN conjunct2, THEN conjunct2, THEN spec, THEN spec, THEN mp,
      OF conjI [OF h1 conjI [OF h2 conjI [OF h3 conjI [OF h4 h2]]]]]
  show ?thesis by simp
qed

text \<open>
  C4 as stated fails at a first response with status 404: its status is not 401, and the
  gateway throws the error for 404 where the claim has it return the response.
\<close>

theorem authorizedFetch_returns_non_401_verbatim_counterexample:
  "scripted [Responded (json_response 404 JNull)] []
     (gateway_request ''https://api.example/api/menu'' no_options) =
     Responded (json_response 404 JNull) \<and>
   status (json_response 404 JNull) \<noteq> 401 \<and>
   fst (authorizedFetch (scripted [Responded (json_response 404 JNull)]) no_env
          ''https://api.example'' ''https://api.example/api/menu'' no_options []) =
     Inl (Error ''API error: 404'') \<and>
   fst (authorizedFetch (scripted [Responded (json_response 404 JNull)]) no_env
          ''https://api.example'' ''https://api.example/api/menu'' no_options []) \<noteq>
     Inr (json_response 404 JNull)"
  by (simp add: scripted_def json_response_def authorizedFetch_def fetch_def check_ok_def ok_def
      decimal_404)

theorem authorizedFetch_first_response_not_401_witness:
  "authorizedFetch (scripted [Responded (json_response 204 JNull)]) no_env
     ''https://api.example'' ''https://api.example/api/menu'' no_options [] =
     (Inr (json_response 204 JNull), [gateway_request ''https://api.example/api/menu'' no_options]) \<and>
   authorizedFetch (scripted [Responded (json_response 404 JNull)]) no_env
     ''https://api.example'' ''https://api.example/api/menu'' no_options [] =
     (Inl (Error ''API error: 404''), [gateway_request ''https://api.example/api/menu'' no_options])"
proof -
  have a: "scripted [Responded (json_response 204 JNull)] []
             (gateway_request ''https://api.example/api/menu'' no_options) =
           Responded (json_response 204 JNull)"
    by (simp add: scripted_def)
  have a': "status (json_response 204 JNull) \<noteq> 401"
    by (simp add: json_response_def)
  have b: "scripted [Responded (json_response 404 JNull)] []
             (gateway_request ''https://api.example/api/menu'' no_options) =
           Responded (json_response 404 JNull)"
    by (simp add: scripted_def)
  have b': "status (json_response 404 JNull) \<noteq> 401"
    by (simp add: json_response_def)
  from authorizedFetch_first_response_not_401
         [where net = "scripted [Responded (json_response 204 JNull)]" and tr = "[]", OF a a']
       authorizedFetch_first_response_not_401
         [where net = "scripted [Responded (json_response 404 JNull)]" and tr = "[]", OF b b']
  show ?thesis
    by (simp add: json_response_def decimal_404)
qed

text \<open>
  C5 as stated fails at a final response with status 500: the call throws a plain
  \<^verbatim>\<open>Error\<close>, which is no \<^verbatim>\<open>ApiError\<close> and has no status member.
\<close>

theorem authorizedFetch_fails_with_ApiError_counterexample:
  "status (json_response 500 JNull) = 500 \<and>
   fst (authorizedFetch (scripted [Responded (json_response 500 JNull)]) no_env
          ''https://api.example'' ''https://api.example/api/menu'' no_options []) =
     Inl (Error ''API error: 500'') \<and>
   \<not> instanceof_ApiError (Error ''API error: 500'') \<and>
   error_status (Error ''API error: 500'') = None"
  by (simp add: scripted_def json_response_def authorizedFetch_def fetch_def check_ok_def ok_def
      decimal_500)

theorem authorizedFetch_failure_is_plain_Error_witness:
  "authorizedFetch
     (scripted [Responded (json_response 401 JNull), Responded (json_response 200 JNull),
                Responded (json_response 500 JNull)])
     no_env ''https://api.example'' ''https://api.example/api/menu'' no_options [] =
   (Inl (Error ''API error: 500''),
    [gateway_request ''https://api.example/api/menu'' no_options,
     token_request no_env ''https://api.example'',
     gateway_request ''https://api.example/api/menu'' no_options]) \<and>
   authorizedFetch (scripted [Responded (json_response 500 JNull)]) no_env
     ''https://api.example'' ''https://api.example/api/menu'' no_options [] =
   (Inl (Error ''API error: 500''), [gateway_request ''https://api.example/api/menu'' no_options]) \<and>
   \<not> instanceof_ApiError (Error ''API error: 500'')"
proof -
  let ?net = "scripted [Responded (json_response 401 JNull), Responded (json_response 200 JNull),
                Responded (json_response 500 JNull)]"
  let ?net' = "scripted [Responded (json_response 500 JNull)]"
  have h1: "?net [] (gateway_request ''https://api.example/api/menu'' no_options) =
              Responded (json_response 401 JNull)"
    by (simp add: scripted_def)
  have h2: "status (json_response 401 JNull) = 401"
    by (simp add: json_response_def)
  have h3: "fst (authenticate ?net no_env ''https://api.example''
                  ([] @ [gateway_request ''https://api.example/api/menu'' no_options]))"
    by (simp add: authenticate_eq scripted_def ok_def json_response_def)
  have h4: "?net ([] @ [gateway_request ''https://api.example/api/menu'' no_options,
                        token_request no_env ''https://api.example''])
              (gateway_request ''https://api.example/api/menu'' no_options) =
            Responded (json_response 500 JNull)"
    by (simp add: scripted_def)
  have h5: "\<not> (200 \<le> status (json_response 500 JNull) \<and> status (json_response 500 JNull) \<le> 299)"
    by (simp add: json_response_def)
  have g1: "?net' [] (gateway_request ''https://api.example/api/menu'' no_options) =
              Responded (json_response 500 JNull)"
    by (simp add: scripted_def)
  have g2: "status (json_response 500 JNull) \<noteq> 401"
    by (simp add: json_response_def)
  have d: "decimal (status (json_response 500 JNull)) = ''500''"
    by (simp add: json_response_def decimal_500)
  note t = authorizedFetch_failure_is_plain_Error [where e = no_env
      and BASE_URL = "''https://api.example''" and tr = "[]"
      and url = "''https://api.example/api/menu''" and options = no_options]
  from t [where net = ?net, THEN conjunct2, THEN conjunct1, THEN spec, THEN spec, THEN mp,
      OF conjI [OF h1 conjI [OF h2 conjI [OF h3 conjI [OF h4 h5]]]]]
  have a: "authorizedFetch ?net no_env ''https://api.example'' ''https://api.example/api/menu''
             no_options [] =
           (Inl (Error ''API error: 500''),
            [gateway_request ''https://api.example/api/menu'' no_options,
             token_request no_env ''https://api.example'',
             gateway_request ''https://api.example/api/menu'' no_options])"
    unfolding d by simp
  from t [where net = ?net', THEN conjunct1, THEN spec, THEN mp,
      OF conjI [OF g1 conjI [OF g2 h5]]]
  have b: "authorizedFetch ?net' no_env ''https://api.example'' ''https://api.example/api/menu''
             no_options [] =
           (Inl (Error ''API error: 500''),
            [gateway_request ''https://api.example/api/menu'' no_options])"
    unfolding d by simp
  from t [where net = ?net', THEN conjunct2, THEN conjunct2, THEN spec, THEN spec, THEN mp, OF b]
  have c: "\<not> instanceof_ApiError (Error ''API error: 500'')"
    by (rule conjunct1)
  from a b c show ?thesis by (intro conjI)
qed

section \<open>The status in the message, and the two wrappers\<close>

lemma decimal_one_digit: "n < 10 \<Longrightarrow> decimal n = [digit n]"
  by (subst decimal.simps) simp

lemma decimal_step: "\<not> n < 10 \<Longrightarrow> decimal n = decimal (n div 10) @ [digit (n mod 10)]"
  by (subst decimal.simps) simp

lemma div10_lt10: "n < 100 \<Longrightarrow> n div 10 < (10::nat)"
  by (simp only: div_less_iff_less_mult zero_less_numeral)

lemma div10_ge10: "\<not> n < 100 \<Longrightarrow> \<not> n div 10 < (10::nat)"
  by (simp only: div_less_iff_less_mult zero_less_numeral)

lemma div10_lt100: "n < 1000 \<Longrightarrow> n div 10 < (100::nat)"
  by (simp only: div_less_iff_less_mult zero_less_numeral)

lemma div10_div10: "n div 10 div 10 = n div (100::nat)"
  by (simp only: div_mult2_eq [symmetric]) simp

lemma decimal_two_digits:
  assumes "\<not> n < 10" "n < 100"
  shows "decimal n = [digit (n div 10), digit (n mod 10)]"
  unfolding decimal_step [OF assms(1)] decimal_one_digit [OF div10_lt10 [OF assms(2)]]
  by (simp only: append.simps)

lemma decimal_three_digits:
  assumes "\<not> n < 100" "n < 1000"
  shows "decimal n = [digit (n div 100), digit (n div 10 mod 10), digit (n mod 10)]"
proof -
  from assms(1) have a: "\<not> n < 10" by linarith
  show ?thesis
    unfolding decimal_step [OF a]
      decimal_two_digits [OF div10_ge10 [OF assms(1)] div10_lt100 [OF assms(2)]] div10_div10
    by (simp only: append.simps)
qed

lemma of_char_digit: "d < 10 \<Longrightarrow> (of_char (digit d) :: nat) = 48 + d"
  unfolding digit_def by (simp only: of_char_of) simp

lemma digit_eq_iff: "d < 10 \<Longrightarrow> d' < 10 \<Longrightarrow> digit d = digit d' \<longleftrightarrow> d = d'"
proof
  assume d: "d < 10" "d' < 10" and eq: "digit d = digit d'"
  then have "(of_char (digit d) :: nat) = of_char (digit d')" by (simp only:)
  with d show "d = d'" by (simp only: of_char_digit)
qed (simp only:)

lemma digit_chars: "digit 4 = CHR ''4''" "digit 0 = CHR ''0''" "digit 1 = CHR ''1''"
  by code_simp+

lemma three_digits_value: "(n::nat) = 100 * (n div 100) + 10 * (n div 10 mod 10) + n mod 10"
proof -
  have "n = 10 * (n div 10) + n mod 10" by (simp only: mult_div_mod_eq)
  moreover have "n div 10 = 10 * (n div 10 div 10) + n div 10 mod 10" by (simp only: mult_div_mod_eq)
  ultimately have "n = 10 * (10 * (n div 10 div 10) + n div 10 mod 10) + n mod 10" by (simp only:)
  then show ?thesis unfolding div10_div10 by (simp only: distrib_left mult.assoc [symmetric])
qed

lemma digits_401:
  assumes "s div 100 = 4" "s div 10 mod 10 = 0" "s mod 10 = 1"
  shows "s = (401::nat)"
  using three_digits_value [of s] unfolding assms by simp

lemma api_error_three_digits:
  "str_includes (''API error: '' @ [a, b, c]) ''API error: 401'' \<longleftrightarrow>
     a = CHR ''4'' \<and> b = CHR ''0'' \<and> c = CHR ''1''"
  by simp

lemma api_error_two_digits: "\<not> str_includes (''API error: '' @ [a, b]) ''API error: 401''"
  by simp

lemma api_error_one_digit: "\<not> str_includes (''API error: '' @ [a]) ''API error: 401''"
  by simp

lemma api_error_401_iff:
  assumes "s < 1000"
  shows "str_includes (''API error: '' @ decimal s) ''API error: 401'' \<longleftrightarrow> s = 401"
proof -
  consider "s < 10" | "\<not> s < 10" "s < 100" | "\<not> s < 100" by linarith
  then show ?thesis
  proof cases
    case 1
    then have "s \<noteq> 401" by linarith
    with 1 show ?thesis
      unfolding decimal_one_digit [OF 1] by (simp only: api_error_one_digit)
  next
    case 2
    then have "s \<noteq> 401" by linarith
    then show ?thesis
      unfolding decimal_two_digits [OF 2] by (simp only: api_error_two_digits)
  next
    case 3
    have d: "s div 100 < 10"
      using assms by (simp only: div_less_iff_less_mult zero_less_numeral)
    have d': "s div 10 mod 10 < 10" "s mod 10 < 10" by simp_all
    have n: "(4::nat) < 10" "(0::nat) < 10" "(1::nat) < 10" by simp_all
    have "(digit (s div 100) = CHR ''4'' \<and> digit (s div 10 mod 10) = CHR ''0'' \<and>
           digit (s mod 10) = CHR ''1'') \<longleftrightarrow> (s div 100 = 4 \<and> s div 10 mod 10 = 0 \<and> s mod 10 = 1)"
      unfolding digit_chars [symmetric]
      by (simp only: digit_eq_iff [OF d n(1)] digit_eq_iff [OF d'(1) n(2)] digit_eq_iff [OF d'(2) n(3)])
    also have "\<dots> \<longleftrightarrow> s = 401"
    proof
      assume "s div 100 = 4 \<and> s div 10 mod 10 = 0 \<and> s mod 10 = 1"
      then show "s = 401" by (elim conjE) (rule digits_401)
    next
      assume s: "s = 401"
      show "s div 100 = 4 \<and> s div 10 mod 10 = 0 \<and> s mod 10 = 1"
        unfolding s by (intro conjI) simp_all
    qed
    finally show ?thesis
      unfolding decimal_three_digits [OF 3 assms] api_error_three_digits .
  qed
qed

lemma not_includes_authentication_failed:
  "\<not> str_includes ''Authentication failed'' ''API error: 401''"
  by simp

lemma fetchWithAuth_rethrow:
  assumes "authorizedFetch net e BASE_URL
             (or_default (NEXT_PUBLIC_API_URL e) ''http://localhost:8080'' @ endpoint) options tr =
           (Inl err, tr')"
  shows "fetchWithAuth net e BASE_URL endpoint options tr =
           (Inl (if str_includes (message err) ''API error: 401''
                 then ApiError ''Authentication failed'' 401 None
                 else ApiError (message err) 500 None), tr')"
proof -
  from authorizedFetch_throws_Error [OF assms] obtain m where m: "err = Error m" by blast
  show ?thesis
    unfolding fetchWithAuth_def Let_def assms m by simp
qed

text \<open>
  C9. Whatever \<^verbatim>\<open>authorizedFetch\<close> throws, \<^verbatim>\<open>fetchWithAuth\<close> rethrows as an
  \<^verbatim>\<open>ApiError\<close>: with status 401 and the message \<^verbatim>\<open>Authentication failed\<close> when the
  message of the error contains \<^verbatim>\<open>API error: 401\<close>, and with status 500 and the message
  of the error in every other case. So a first response with a status below 1000 that is
  neither 401 nor in 200 to 299 (404 and 500 among them) is rethrown with status 500:
  its own status survives in the message only. Among the statuses below 1000 the message
  contains \<^verbatim>\<open>API error: 401\<close> for 401 alone, and the message of a failed
  re-authentication does not contain it.
\<close>

theorem fetchWithAuth_rethrows_ApiError:
  "(\<forall>err tr'.
      authorizedFetch net e BASE_URL
        (or_default (NEXT_PUBLIC_API_URL e) ''http://localhost:8080'' @ endpoint) options tr =
        (Inl err, tr') \<longrightarrow>
      fetchWithAuth net e BASE_URL endpoint options tr =
        (Inl (if str_includes (message err) ''API error: 401''
              then ApiError ''Authentication failed'' 401 None
              else ApiError (message err) 500 None), tr')) \<and>
   (\<forall>r. net tr (gateway_request
                  (or_default (NEXT_PUBLIC_API_URL e) ''http://localhost:8080'' @ endpoint) options) =
          Responded r \<and>
        status r \<noteq> 401 \<and> \<not> (200 \<le> status r \<and> status r \<le> 299) \<and> status r < 1000 \<longrightarrow>
      fetchWithAuth net e BASE_URL endpoint options tr =
        (Inl (ApiError (''API error: '' @ decimal (status r)) 500 None),
         tr @ [gateway_request
                 (or_default (NEXT_PUBLIC_API_URL e) ''http://localhost:8080'' @ endpoint) options])) \<and>
   (\<forall>s. s < 1000 \<longrightarrow>
      (str_includes (''API error: '' @ decimal s) ''API error: 401'' \<longleftrightarrow> s = 401)) \<and>
   \<not> str_includes ''Authentication failed'' ''API error: 401''"
proof (intro conjI allI impI)
  fix err tr'
  assume "authorizedFetch net e BASE_URL
        (or_default (NEXT_PUBLIC_API_URL e) ''http://localhost:8080'' @ endpoint) options tr =
        (Inl err, tr')"
  then show "fetchWithAuth net e BASE_URL endpoint options tr =
        (Inl (if str_includes (message err) ''API error: 401''
              then ApiError ''Authentication failed'' 401 None
              else ApiError (message err) 500 None), tr')"
    by (rule fetchWithAuth_rethrow)
next
  fix r
  let ?url = "or_default (NEXT_PUBLIC_API_URL e) ''http://localhost:8080'' @ endpoint"
  assume "net tr (gateway_request ?url options) = Responded r \<and>
        status r \<noteq> 401 \<and> \<not> (200 \<le> status r \<and> status r \<le> 299) \<and> status r < 1000"
  then have a: "net tr (gateway_request ?url options) = Responded r" and b: "status r \<noteq> 401"
    and c: "\<not> ok r" and d: "status r < 1000"
    by (simp_all add: ok_def)
  from c have "authorizedFetch net e BASE_URL ?url options tr =
      (Inl (Error (''API error: '' @ decimal (status r))), tr @ [gateway_request ?url options])"
    unfolding authorizedFetch_first_not_401 [where net = net and tr = tr, OF a b]
    by (simp add: check_ok_def)
  from fetchWithAuth_rethrow [OF this] b
  show "fetchWithAuth net e BASE_URL endpoint options tr =
        (Inl (ApiError (''API error: '' @ decimal (status r)) 500 None),
         tr @ [gateway_request ?url options])"
    by (simp only: message.simps api_error_401_iff [OF d] if_False)
next
  fix s :: nat
  assume "s < 1000"
  then show "str_includes (''API error: '' @ decimal s) ''API error: 401'' \<longleftrightarrow> s = 401"
    by (rule api_error_401_iff)
next
  show "\<not> str_includes ''Authentication failed'' ''API error: 401''"
    by (rule not_includes_authentication_failed)
qed

theorem fetchWithAuth_rethrows_ApiError_witness:
  "fetchWithAuth (scripted [Responded (json_response 404 JNull)]) no_env ''https://api.example''
     ''/api/menu'' no_options [] =
   (Inl (ApiError ''API error: 404'' 500 None),
    [gateway_request ''http://localhost:8080/api/menu'' no_options]) \<and>
   fetchWithAuth
     (scripted [Responded (json_response 401 JNull), Responded (json_response 200 JNull),
                Responded (json_response 401 JNull)])
     no_env ''https://api.example'' ''/api/menu'' no_options [] =
   (Inl (ApiError ''Authentication failed'' 401 None),
    [gateway_request ''http://localhost:8080/api/menu'' no_options,
     token_request no_env ''https://api.example'',
     gateway_request ''http://localhost:8080/api/menu'' no_options])"
proof -
  let ?net = "scripted [Responded (json_response 404 JNull)]"
  let ?net' = "scripted [Responded (json_response 401 JNull), Responded (json_response 200 JNull),
                Responded (json_response 401 JNull)]"
  have u: "or_default (NEXT_PUBLIC_API_URL no_env) ''http://localhost:8080'' @ ''/api/menu'' =
           ''http://localhost:8080/api/menu''"
    by (simp add: no_env_def)
  note t = fetchWithAuth_rethrows_ApiError [where e = no_env and BASE_URL = "''https://api.example''"
      and endpoint = "''/api/menu''" and options = no_options and tr = "[]", unfolded u]
  have h: "?net [] (gateway_request ''http://localhost:8080/api/menu'' no_options) =
             Responded (json_response 404 JNull) \<and>
           status (json_response 404 JNull) \<noteq> 401 \<and>
           \<not> (200 \<le> status (json_response 404 JNull) \<and> status (json_response 404 JNull) \<le> 299) \<and>
           status (json_response 404 JNull) < 1000"
    by (simp add: scripted_def json_response_def)
  have d: "decimal (status (json_response 404 JNull)) = ''404''"
    by (simp add: json_response_def decimal_404)
  from t [where net = ?net, THEN conjunct2, THEN conjunct1, THEN spec, THEN mp, OF h]
  have a: "fetchWithAuth ?net no_env ''https://api.example'' ''/api/menu'' no_options [] =
           (Inl (ApiError ''API error: 404'' 500 None),
            [gateway_request ''http://localhost:8080/api/menu'' no_options])"
    unfolding d by simp
  have g: "authorizedFetch ?net' no_env ''https://api.example'' ''http://localhost:8080/api/menu''
             no_options [] =
           (Inl (Error ''API error: 401''),
            [gateway_request ''http://localhost:8080/api/menu'' no_options,
             token_request no_env ''https://api.example'',
             gateway_request ''http://localhost:8080/api/menu'' no_options])"
    by (simp add: authorizedFetch_def fetch_def authenticate_def scripted_def json_response_def
        check_ok_def ok_def decimal_401)
  from t [where net = ?net', THEN conjunct1, THEN spec, THEN spec, THEN mp, OF g]
  have b: "fetchWithAuth ?net' no_env ''https://api.example'' ''/api/menu'' no_options [] =
           (Inl (ApiError ''Authentication failed'' 401 None),
            [gateway_request ''http://localhost:8080/api/menu'' no_options,
             token_request no_env ''https://api.example'',
             gateway_request ''http://localhost:8080/api/menu'' no_options])"
    by simp
  from a b show ?thesis by (intro conjI)
qed

lemma json_of_Json: "payload response = Json data \<Longrightarrow> json_of response = Inr data"
  by (simp add: json_of_def)

lemma json_of_Malformed: "payload response = Malformed m \<Longrightarrow> json_of response = Inl (Error m)"
  by (simp add: json_of_def)

text \<open>
  C8. \<^verbatim>\<open>getMenuItems\<close> returns an \<^verbatim>\<open>ActionResult\<close> in every case, and its result type
  has no error alternative. When the gateway returns a response whose body is JSON: if the
  body passes the schema the result is the success with the parsed items; if it fails the
  schema the result is the failure whose message is \<^verbatim>\<open>Invalid data format: \<close> followed
  by the message of the validation error, with the code \<^verbatim>\<open>VALIDATION_ERROR\<close>. When the body
  is not JSON, or when the gateway throws, the result is the failure with the message of
  the error and neither code nor status.
\<close>

theorem getMenuItems_always_ActionResult:
  "(\<forall>response tr' data.
      authorizedFetch net e BASE_URL (BASE_URL @ ''/api/menu'') no_options tr = (Inr response, tr') \<and>
      payload response = Json data \<longrightarrow>
      (\<forall>items. z_array menuItemSchema data = Some items \<longrightarrow>
         getMenuItems net e BASE_URL zod_message tr = (Success items, tr')) \<and>
      (z_array menuItemSchema data = None \<longrightarrow>
         getMenuItems net e BASE_URL zod_message tr =
           (Failure (''Invalid data format: '' @ zod_message data) (Some ''VALIDATION_ERROR'') None,
            tr'))) \<and>
   (\<forall>response tr' m.
      authorizedFetch net e BASE_URL (BASE_URL @ ''/api/menu'') no_options tr = (Inr response, tr') \<and>
      payload response = Malformed m \<longrightarrow>
      getMenuItems net e BASE_URL zod_message tr = (Failure m None None, tr')) \<and>
   (\<forall>err tr'.
      authorizedFetch net e BASE_URL (BASE_URL @ ''/api/menu'') no_options tr = (Inl err, tr') \<longrightarrow>
      getMenuItems net e BASE_URL zod_message tr = (Failure (message err) None None, tr'))"
proof (intro conjI allI impI)
  fix response tr' data items
  assume "authorizedFetch net e BASE_URL (BASE_URL @ ''/api/menu'') no_options tr = (Inr response, tr') \<and>
      payload response = Json data" and "z_array menuItemSchema data = Some items"
  then show "getMenuItems net e BASE_URL zod_message tr = (Success items, tr')"
    by (simp add: getMenuItems_def json_of_Json parse_items_def)
next
  fix response tr' data
  assume "authorizedFetch net e BASE_URL (BASE_URL @ ''/api/menu'') no_options tr = (Inr response, tr') \<and>
      payload response = Json data" and "z_array menuItemSchema data = None"
  then show "getMenuItems net e BASE_URL zod_message tr =
           (Failure (''Invalid data format: '' @ zod_message data) (Some ''VALIDATION_ERROR'') None,
            tr')"
    by (simp add: getMenuItems_def json_of_Json parse_items_def)
next
  fix response tr' m
  assume "authorizedFetch net e BASE_URL (BASE_URL @ ''/api/menu'') no_options tr = (Inr response, tr') \<and>
      payload response = Malformed m"
  then show "getMenuItems net e BASE_URL zod_message tr = (Failure m None None, tr')"
    by (simp add: getMenuItems_def json_of_Malformed)
next
  fix err tr'
  assume a: "authorizedFetch net e BASE_URL (BASE_URL @ ''/api/menu'') no_options tr = (Inl err, tr')"
  from authorizedFetch_throws_Error [OF a] obtain m where "err = Error m" by blast
  with a show "getMenuItems net e BASE_URL zod_message tr = (Failure (message err) None None, tr')"
    by (simp add: getMenuItems_def)
qed

theorem getMenuItems_always_ActionResult_witness:
  "getMenuItems
     (scripted [Responded (json_response 200
        (JArray [JObject [(''id'', JString ''7''), (''name'', JString ''Dosa''),
                          (''price'', JNumber 9)]]))])
     no_env ''https://api.example'' issue_text [] =
   (Success [\<lparr>item_id = ''7'', item_name = ''Dosa''\<rparr>],
    [gateway_request ''https://api.example/api/menu'' no_options]) \<and>
   getMenuItems
     (scripted [Responded (json_response 200 (JArray [JObject [(''id'', JString ''7'')]]))])
     no_env ''https://api.example'' issue_text [] =
   (Failure ''Invalid data format: []'' (Some ''VALIDATION_ERROR'') None,
    [gateway_request ''https://api.example/api/menu'' no_options])"
proof -
  let ?good = "JArray [JObject [(''id'', JString ''7''), (''name'', JString ''Dosa''),
                          (''price'', JNumber 9)]]"
  let ?bad = "JArray [JObject [(''id'', JString ''7'')]]"
  note t = getMenuItems_always_ActionResult [where e = no_env
      and BASE_URL = "''https://api.example''" and tr = "[]" and zod_message = issue_text,
      THEN conjunct1, THEN spec, THEN spec, THEN spec, THEN mp]
  have g: "authorizedFetch (scripted [Responded (json_response 200 ?good)]) no_env
             ''https://api.example'' (''https://api.example'' @ ''/api/menu'') no_options [] =
           (Inr (json_response 200 ?good), [gateway_request ''https://api.example/api/menu'' no_options]) \<and>
           payload (json_response 200 ?good) = Json ?good"
    by (simp add: authorizedFetch_def fetch_def scripted_def json_response_def check_ok_def ok_def)
  have b: "authorizedFetch (scripted [Responded (json_response 200 ?bad)]) no_env
             ''https://api.example'' (''https://api.example'' @ ''/api/menu'') no_options [] =
           (Inr (json_response 200 ?bad), [gateway_request ''https://api.example/api/menu'' no_options]) \<and>
           payload (json_response 200 ?bad) = Json ?bad"
    by (simp add: authorizedFetch_def fetch_def scripted_def json_response_def check_ok_def ok_def)
  have zg: "z_array menuItemSchema ?good = Some [\<lparr>item_id = ''7'', item_name = ''Dosa''\<rparr>]"
    by simp
  have zb: "z_array menuItemSchema ?bad = None"
    by simp
  from t [OF g, THEN conjunct1, THEN spec, THEN mp, OF zg]
  have 1: "getMenuItems (scripted [Responded (json_response 200 ?good)]) no_env
             ''https://api.example'' issue_text [] =
           (Success [\<lparr>item_id = ''7'', item_name = ''Dosa''\<rparr>],
            [gateway_request ''https://api.example/api/menu'' no_options])" .
  from t [OF b, THEN conjunct2, THEN mp, OF zb]
  have 2: "getMenuItems (scripted [Responded (json_response 200 ?bad)]) no_env
             ''https://api.example'' issue_text [] =
           (Failure ''Invalid data format: []'' (Some ''VALIDATION_ERROR'') None,
            [gateway_request ''https://api.example/api/menu'' no_options])"
    by (simp add: issue_text_def)
  from 1 2 show ?thesis by (intro conjI)
qed

section \<open>The headers the gateway sends\<close>

text \<open>
  Both requests of a call are \<open>gateway_request url options\<close>, whose second component
  is \<open>forced_init options\<close>. The forced members are there whatever the caller passes,
  the members other than \<^verbatim>\<open>headers\<close> and \<^verbatim>\<open>credentials\<close> are the caller's, and the
  headers of a caller's plain object are kept under every name but the two forced ones.
\<close>

lemma forced_init_forces:
  "credentials (forced_init options) = Some ''include'' \<and>
   (\<exists>hs. headers (forced_init options) = Some (Plain hs) \<and>
      map_of hs ''Content-Type'' = Some (HString ''application/json'') \<and>
      map_of hs ''Accept'' = Some (HString ''application/json''))"
  by (simp add: forced_init_def update_conv')

lemma forced_init_keeps_other_options:
  "http_method (forced_init options) = http_method options \<and>
   body (forced_init options) = body options \<and>
   others (forced_init options) = others options"
  by (simp add: forced_init_def)

lemma forced_init_keeps_plain_headers:
  assumes "headers options = Some (Plain kvs)" and "k \<noteq> ''Content-Type''" and "k \<noteq> ''Accept''"
  shows "\<exists>hs. headers (forced_init options) = Some (Plain hs) \<and> map_of hs k = map_of kvs k"
  using assms by (simp add: forced_init_def update_conv')

lemma forced_init_no_options:
  "forced_init no_options =
     \<lparr>http_method = None,
      headers = Some (Plain [(''Content-Type'', HString ''application/json''),
                             (''Accept'', HString ''application/json'')]),
      body = None, credentials = Some ''include'', others = []\<rparr>"
  by (simp add: forced_init_def no_options_def)

text \<open>
  C7. The claim that every caller-supplied header is passed through fails at a caller who
  passes the headers as a \<^verbatim>\<open>Headers\<close> instance, which \<^verbatim>\<open>RequestInit\<close> allows: the
  spread copies none of its entries, and the request carries the two forced headers only.
  The same header passed in a plain object is kept.
\<close>

theorem authorizedFetch_drops_Headers_instance:
  "snd (authorizedFetch (scripted [Responded (json_response 200 JNull)]) no_env
          ''https://api.example'' ''https://api.example/api/menu''
          (no_options\<lparr>headers := Some (HeadersInstance [(''X-Trace'', ''1'')])\<rparr>) []) =
     [(''https://api.example/api/menu'',
       \<lparr>http_method = None,
        headers = Some (Plain [(''Content-Type'', HString ''application/json''),
                               (''Accept'', HString ''application/json'')]),
        body = None, credentials = Some ''include'', others = []\<rparr>)] \<and>
   snd (authorizedFetch (scripted [Responded (json_response 200 JNull)]) no_env
          ''https://api.example'' ''https://api.example/api/menu''
          (no_options\<lparr>headers := Some (Plain [(''X-Trace'', HString ''1'')])\<rparr>) []) =
     [(''https://api.example/api/menu'',
       \<lparr>http_method = None,
        headers = Some (Plain [(''X-Trace'', HString ''1''),
                               (''Content-Type'', HString ''application/json''),
                               (''Accept'', HString ''application/json'')]),
        body = None, credentials = Some ''include'', others = []\<rparr>)]"
  by (simp add: authorizedFetch_def fetch_def scripted_def json_response_def check_ok_def ok_def
      forced_init_def no_options_def)

end
